theory Spec2Isabelle
  imports Main "HOL-Library.Word"
begin

section \<open>The SRTP transport adapter of webrtc/pc/srtptransport.cc\<close>

text \<open>
  The adapter \<open>SrtpTransport\<close> owns up to four crypto sessions behind nullable owning
  pointers, decorates the send operations of an underlying RTP transport with protection
  and its receive notification with unprotection. The crypto session class
  (\<open>cricket::SrtpSession\<close>), the packet buffer, the send options and the underlying
  transport are declared outside srtptransport.cc; the adapter's own functions are
  translated one by one from that file. Log statements have no effect on the state and
  are left out.
\<close>

subsection \<open>Data the adapter works on\<close>

type_synonym byte = "8 word"

text \<open>
  Modelled from the spec: the packet buffer (\<open>rtc::CopyOnWriteBuffer\<close>, declared in
  rtc_base/copyonwritebuffer.h). Section 3 describes it as a mutable byte buffer with a
  logical length and a capacity. \<open>data\<close> is what the pointer returned by
  \<open>packet->data()\<close> points at, \<open>size_buf\<close> is \<open>packet->size()\<close>.
\<close>

record CopyOnWriteBuffer =
  data :: "byte list"
  size_buf :: nat
  capacity :: nat

text \<open>
  Modelled from the spec: \<open>CopyOnWriteBuffer::SetSize\<close> sets the logical length; a
  length beyond the capacity makes the buffer grow.
\<close>

definition SetSize :: "CopyOnWriteBuffer \<Rightarrow> nat \<Rightarrow> CopyOnWriteBuffer" where
  "SetSize b n = b\<lparr>size_buf := n, capacity := max (capacity b) n\<rparr>"

text \<open>
  \<open>static_cast<int>(packet->size())\<close>: a \<open>size_t\<close> read as a 32-bit signed \<open>int\<close>,
  and the implicit conversion of the \<open>int\<close> length back to \<open>size_t\<close> (64 bits) at
  \<open>packet->SetSize(len)\<close>.
\<close>

definition static_cast_int :: "nat \<Rightarrow> int" where
  "static_cast_int n =
     (let m = int n mod 2 ^ 32 in if m < 2 ^ 31 then m else m - 2 ^ 32)"

definition to_size_t :: "int \<Rightarrow> nat" where
  "to_size_t i = nat (i mod 2 ^ 64)"

text \<open>
  Modelled from the spec: the send options (\<open>rtc::PacketOptions\<close>, declared in
  rtc_base/asyncpacketsocket.h) with the side data for external authentication of
  section 4.2, step 3: send-time extension id, raw authentication key, tag length and
  the packet's security index.
\<close>

record PacketTimeUpdateParams =
  rtp_sendtime_extension_id :: int
  srtp_auth_key :: "byte list"
  srtp_auth_tag_len :: int
  srtp_packet_index :: int

record PacketOptions =
  dscp :: int
  packet_id :: int
  packet_time_params :: PacketTimeUpdateParams

record PacketTime =
  timestamp :: int
  not_before :: int

datatype ContentSource = CS_LOCAL | CS_REMOTE

subsection \<open>The external collaborators\<close>

text \<open>
  The crypto session class \<open>cricket::SrtpSession\<close> (pc/srtpsession.h) is an external
  collaborator. Its member functions are taken as parameters: \<open>'s\<close> is the state of one
  session, every member function takes the session and returns what it writes through
  its out-pointers together with the session afterwards. A function writing the packet
  through \<open>void* p\<close> returns the bytes afterwards; \<open>int* out_len\<close> is returned as the
  second number.
\<close>

record 's SrtpSession =
  new_SrtpSession :: 's
  session_SetEncryptedHeaderExtensionIds :: "'s \<Rightarrow> int list \<Rightarrow> 's"
  session_EnableExternalAuth :: "'s \<Rightarrow> 's"
  session_SetSend :: "'s \<Rightarrow> int \<Rightarrow> byte list \<Rightarrow> int \<Rightarrow> bool \<times> 's"
  session_SetRecv :: "'s \<Rightarrow> int \<Rightarrow> byte list \<Rightarrow> int \<Rightarrow> bool \<times> 's"
  session_ProtectRtp :: "'s \<Rightarrow> byte list \<Rightarrow> int \<Rightarrow> int \<Rightarrow> bool \<times> byte list \<times> int \<times> 's"
  session_ProtectRtpIndex ::
    "'s \<Rightarrow> byte list \<Rightarrow> int \<Rightarrow> int \<Rightarrow> bool \<times> byte list \<times> int \<times> int \<times> 's"
  session_ProtectRtcp :: "'s \<Rightarrow> byte list \<Rightarrow> int \<Rightarrow> int \<Rightarrow> bool \<times> byte list \<times> int \<times> 's"
  session_UnprotectRtp :: "'s \<Rightarrow> byte list \<Rightarrow> int \<Rightarrow> bool \<times> byte list \<times> int \<times> 's"
  session_UnprotectRtcp :: "'s \<Rightarrow> byte list \<Rightarrow> int \<Rightarrow> bool \<times> byte list \<times> int \<times> 's"
  session_GetRtpAuthParams :: "'s \<Rightarrow> bool \<times> byte list \<times> int \<times> int"
  session_GetSrtpOverhead :: "'s \<Rightarrow> int"
  session_IsExternalAuthActive :: "'s \<Rightarrow> bool"

text \<open>
  The two build switches the file depends on: the preprocessor symbol
  \<open>ENABLE_EXTERNAL_AUTH\<close> (lines 80 to 104) and whether debug checks
  (\<open>RTC_DCHECK\<close>, line 346) are compiled in.
\<close>

record build_config =
  ENABLE_EXTERNAL_AUTH :: bool
  RTC_DCHECK_IS_ON :: bool

text \<open>
  A call of the underlying transport (\<open>rtp_transport_->SendRtpPacket\<close> or
  \<open>SendRtcpPacket\<close>, told apart by the first argument) and a notification of the
  adapter's own listeners (\<open>SignalPacketReceived\<close>).
\<close>

datatype transport_call = TransportSend bool CopyOnWriteBuffer PacketOptions int

datatype listener_signal = SignalPacketReceived bool CopyOnWriteBuffer PacketTime

subsection \<open>The adapter\<close>

record 's SrtpTransport =
  content_name :: string
  send_session :: "'s option"
  recv_session :: "'s option"
  send_rtcp_session :: "'s option"
  recv_rtcp_session :: "'s option"
  external_auth_enabled :: bool
  rtp_abs_sendtime_extn_id :: int
  send_encrypted_header_extension_ids :: "int list"
  recv_encrypted_header_extension_ids :: "int list"

definition IsActive :: "'s SrtpTransport \<Rightarrow> bool" where
  "IsActive t \<longleftrightarrow> send_session t \<noteq> None \<and> recv_session t \<noteq> None"

definition ResetParams :: "'s SrtpTransport \<Rightarrow> 's SrtpTransport" where
  "ResetParams t =
     t\<lparr>send_session := None, recv_session := None,
       send_rtcp_session := None, recv_rtcp_session := None\<rparr>"

definition SetEncryptedHeaderExtensionIds ::
  "'s SrtpTransport \<Rightarrow> ContentSource \<Rightarrow> int list \<Rightarrow> 's SrtpTransport" where
  "SetEncryptedHeaderExtensionIds t source extension_ids =
     (if source = CS_LOCAL
      then t\<lparr>recv_encrypted_header_extension_ids := extension_ids\<rparr>
      else t\<lparr>send_encrypted_header_extension_ids := extension_ids\<rparr>)"

definition CreateSrtpSessions :: "'s SrtpSession \<Rightarrow> 's SrtpTransport \<Rightarrow> 's SrtpTransport" where
  "CreateSrtpSessions lib t =
     (let t1 = t\<lparr>send_session := Some (new_SrtpSession lib),
                 recv_session := Some (new_SrtpSession lib)\<rparr>
      in if external_auth_enabled t1
         then t1\<lparr>send_session := Some (session_EnableExternalAuth lib (the (send_session t1)))\<rparr>
         else t1)"

text \<open>
  \<open>SetRtpParams\<close>, lines 171 to 199. The two sessions are the ones
  \<open>CreateSrtpSessions\<close> has just stored, so the pointers are not null where they are
  dereferenced.
\<close>

definition SetRtpParams ::
  "'s SrtpSession \<Rightarrow> 's SrtpTransport \<Rightarrow> int \<Rightarrow> byte list \<Rightarrow> int \<Rightarrow> int \<Rightarrow> byte list \<Rightarrow> int
     \<Rightarrow> bool \<times> 's SrtpTransport" where
  "SetRtpParams lib t send_cs send_key send_key_len recv_cs recv_key recv_key_len =
     (let t1 = CreateSrtpSessions lib t;
          s1 = session_SetEncryptedHeaderExtensionIds lib (the (send_session t1))
                 (send_encrypted_header_extension_ids t1);
          s2 = (if external_auth_enabled t1 then session_EnableExternalAuth lib s1 else s1);
          (send_ok, s3) = session_SetSend lib s2 send_cs send_key send_key_len;
          t2 = t1\<lparr>send_session := Some s3\<rparr>
      in if \<not> send_ok then (False, ResetParams t2)
         else
           (let r1 = session_SetEncryptedHeaderExtensionIds lib (the (recv_session t2))
                       (recv_encrypted_header_extension_ids t2);
                (recv_ok, r2) = session_SetRecv lib r1 recv_cs recv_key recv_key_len;
                t3 = t2\<lparr>recv_session := Some r2\<rparr>
            in if \<not> recv_ok then (False, ResetParams t3) else (True, t3)))"

text \<open>
  \<open>SetRtcpParams\<close>, lines 201 to 229. Both fresh sessions are keyed through
  \<open>SetRecv\<close>, as lines 215 and 220 are written.
\<close>

definition SetRtcpParams ::
  "'s SrtpSession \<Rightarrow> 's SrtpTransport \<Rightarrow> int \<Rightarrow> byte list \<Rightarrow> int \<Rightarrow> int \<Rightarrow> byte list \<Rightarrow> int
     \<Rightarrow> bool \<times> 's SrtpTransport" where
  "SetRtcpParams lib t send_cs send_key send_key_len recv_cs recv_key recv_key_len =
     (if send_rtcp_session t \<noteq> None \<or> recv_rtcp_session t \<noteq> None then (False, t)
      else
        (let (send_ok, s) = session_SetRecv lib (new_SrtpSession lib) send_cs send_key send_key_len;
             t1 = t\<lparr>send_rtcp_session := Some s\<rparr>
         in if \<not> send_ok then (False, t1)
            else
              (let (recv_ok, r) =
                     session_SetRecv lib (new_SrtpSession lib) recv_cs recv_key recv_key_len;
                   t2 = t1\<lparr>recv_rtcp_session := Some r\<rparr>
               in if \<not> recv_ok then (False, t2) else (True, t2))))"

text \<open>
  \<open>EnableExternalAuth\<close>, lines 345 to 348: \<open>None\<close> is the abort of a failed
  \<open>RTC_DCHECK\<close>, which is only compiled into builds with debug checks.
\<close>

definition EnableExternalAuth :: "build_config \<Rightarrow> 's SrtpTransport \<Rightarrow> 's SrtpTransport option" where
  "EnableExternalAuth cfg t =
     (if RTC_DCHECK_IS_ON cfg \<and> IsActive t then None
      else Some (t\<lparr>external_auth_enabled := True\<rparr>))"

definition IsExternalAuthEnabled :: "'s SrtpTransport \<Rightarrow> bool" where
  "IsExternalAuthEnabled t = external_auth_enabled t"

definition IsExternalAuthActive :: "'s SrtpSession \<Rightarrow> 's SrtpTransport \<Rightarrow> bool" where
  "IsExternalAuthActive lib t =
     (if \<not> IsActive t then False
      else session_IsExternalAuthActive lib (the (send_session t)))"

subsection \<open>The packet path\<close>

text \<open>
  Each function first checks \<open>IsActive\<close>; the \<open>RTC_CHECK\<close> on the session pointer that
  follows cannot fail after it, so the pointer is dereferenced directly. The results are
  the return value, the bytes at \<open>p\<close>, the value of \<open>*out_len\<close> (which the caller
  initialised with \<open>in_len\<close>) and the adapter with the session as the call left it.
\<close>

definition ProtectRtp ::
  "'s SrtpSession \<Rightarrow> 's SrtpTransport \<Rightarrow> byte list \<Rightarrow> int \<Rightarrow> int
     \<Rightarrow> bool \<times> byte list \<times> int \<times> 's SrtpTransport" where
  "ProtectRtp lib t p in_len max_len =
     (if \<not> IsActive t then (False, p, in_len, t)
      else
        (let (res, p', out_len, s') =
               session_ProtectRtp lib (the (send_session t)) p in_len max_len
         in (res, p', out_len, t\<lparr>send_session := Some s'\<rparr>)))"

definition ProtectRtpIndex ::
  "'s SrtpSession \<Rightarrow> 's SrtpTransport \<Rightarrow> byte list \<Rightarrow> int \<Rightarrow> int \<Rightarrow> int
     \<Rightarrow> bool \<times> byte list \<times> int \<times> int \<times> 's SrtpTransport" where
  "ProtectRtpIndex lib t p in_len max_len index =
     (if \<not> IsActive t then (False, p, in_len, index, t)
      else
        (let (res, p', out_len, index', s') =
               session_ProtectRtpIndex lib (the (send_session t)) p in_len max_len
         in (res, p', out_len, index', t\<lparr>send_session := Some s'\<rparr>)))"

definition ProtectRtcp ::
  "'s SrtpSession \<Rightarrow> 's SrtpTransport \<Rightarrow> byte list \<Rightarrow> int \<Rightarrow> int
     \<Rightarrow> bool \<times> byte list \<times> int \<times> 's SrtpTransport" where
  "ProtectRtcp lib t p in_len max_len =
     (if \<not> IsActive t then (False, p, in_len, t)
      else if send_rtcp_session t \<noteq> None then
        (let (res, p', out_len, s') =
               session_ProtectRtcp lib (the (send_rtcp_session t)) p in_len max_len
         in (res, p', out_len, t\<lparr>send_rtcp_session := Some s'\<rparr>))
      else
        (let (res, p', out_len, s') =
               session_ProtectRtcp lib (the (send_session t)) p in_len max_len
         in (res, p', out_len, t\<lparr>send_session := Some s'\<rparr>)))"

definition UnprotectRtp ::
  "'s SrtpSession \<Rightarrow> 's SrtpTransport \<Rightarrow> byte list \<Rightarrow> int
     \<Rightarrow> bool \<times> byte list \<times> int \<times> 's SrtpTransport" where
  "UnprotectRtp lib t p in_len =
     (if \<not> IsActive t then (False, p, in_len, t)
      else
        (let (res, p', out_len, s') =
               session_UnprotectRtp lib (the (recv_session t)) p in_len
         in (res, p', out_len, t\<lparr>recv_session := Some s'\<rparr>)))"

definition UnprotectRtcp ::
  "'s SrtpSession \<Rightarrow> 's SrtpTransport \<Rightarrow> byte list \<Rightarrow> int
     \<Rightarrow> bool \<times> byte list \<times> int \<times> 's SrtpTransport" where
  "UnprotectRtcp lib t p in_len =
     (if \<not> IsActive t then (False, p, in_len, t)
      else if recv_rtcp_session t \<noteq> None then
        (let (res, p', out_len, s') =
               session_UnprotectRtcp lib (the (recv_rtcp_session t)) p in_len
         in (res, p', out_len, t\<lparr>recv_rtcp_session := Some s'\<rparr>))
      else
        (let (res, p', out_len, s') =
               session_UnprotectRtcp lib (the (recv_session t)) p in_len
         in (res, p', out_len, t\<lparr>recv_session := Some s'\<rparr>)))"

definition GetRtpAuthParams ::
  "'s SrtpSession \<Rightarrow> 's SrtpTransport \<Rightarrow> bool \<times> byte list \<times> int \<times> int" where
  "GetRtpAuthParams lib t =
     (if \<not> IsActive t then (False, [], 0, 0)
      else session_GetRtpAuthParams lib (the (send_session t)))"

definition GetSrtpOverhead :: "'s SrtpSession \<Rightarrow> 's SrtpTransport \<Rightarrow> int option" where
  "GetSrtpOverhead lib t =
     (if \<not> IsActive t then None
      else Some (session_GetSrtpOverhead lib (the (send_session t))))"

text \<open>
  What one call of \<open>SendPacket\<close> does: its return value, the caller's packet
  afterwards, the call made on the underlying transport if there is one, and the
  adapter afterwards. Likewise for \<open>OnPacketReceived\<close>.
\<close>

record 's send_outcome =
  returned :: bool
  packet_after :: CopyOnWriteBuffer
  passed_down :: "transport_call option"
  adapter_after :: "'s SrtpTransport"

record 's receive_outcome =
  signalled :: "listener_signal option"
  received_packet_after :: CopyOnWriteBuffer
  receiving_adapter_after :: "'s SrtpTransport"

text \<open>
  Lines 80 to 104 of \<open>SendPacket\<close>, the protection of an RTP packet: the result, the
  bytes, \<open>len\<close>, \<open>updated_options\<close> and the adapter afterwards. When
  \<open>GetRtpAuthParams\<close> fails the function returns without using
  \<open>updated_options\<close> again, so the tag length written there is not kept.
  \<open>None\<close> stands for a call that does not return: at line 98
  \<open>srtp_auth_key.resize(key_len)\<close> converts the \<open>int\<close> to the vector's unsigned size
  type, a negative \<open>key_len\<close> becomes a size beyond the vector's maximum and
  \<open>resize\<close> throws. The list \<open>auth_key\<close> stands for the bytes at the pointer the
  session hands out, of which lines 99 and 100 copy the first \<open>key_len\<close>.
\<close>

definition SendPacket_protect_rtp ::
  "build_config \<Rightarrow> 's SrtpSession \<Rightarrow> 's SrtpTransport \<Rightarrow> byte list \<Rightarrow> int \<Rightarrow> int \<Rightarrow> PacketOptions
     \<Rightarrow> (bool \<times> byte list \<times> int \<times> PacketOptions \<times> 's SrtpTransport) option" where
  "SendPacket_protect_rtp cfg lib t p len cap options =
     (if \<not> ENABLE_EXTERNAL_AUTH cfg \<or> \<not> IsExternalAuthActive lib t then
        (let (res, p', len', t') = ProtectRtp lib t p len cap
         in Some (res, p', len', options, t'))
      else
        (let ptp = packet_time_params options;
             ptp1 = ptp\<lparr>rtp_sendtime_extension_id := rtp_abs_sendtime_extn_id t\<rparr>;
             (res, p', len', index, t') =
               ProtectRtpIndex lib t p len cap (srtp_packet_index ptp1);
             ptp2 = ptp1\<lparr>srtp_packet_index := index\<rparr>
         in if res then
              (let (res2, auth_key, key_len, tag_len) = GetRtpAuthParams lib t'
               in if res2 then
                    (if key_len < 0 then None
                     else
                       Some (True, p', len',
                             options\<lparr>packet_time_params :=
                               ptp2\<lparr>srtp_auth_tag_len := tag_len,
                                    srtp_auth_key := take (nat key_len) auth_key\<rparr>\<rparr>, t'))
                  else Some (False, p', len', options\<lparr>packet_time_params := ptp2\<rparr>, t'))
            else Some (False, p', len', options\<lparr>packet_time_params := ptp2\<rparr>, t')))"

text \<open>
  \<open>SendPacket\<close>, lines 58 to 130. \<open>rtp_transport\<close> is the return value of the
  underlying transport's send operation. The result is \<open>None\<close> when the call does not
  return (line 98, see above).
\<close>

definition SendPacket ::
  "build_config \<Rightarrow> 's SrtpSession \<Rightarrow> (transport_call \<Rightarrow> bool) \<Rightarrow> 's SrtpTransport
     \<Rightarrow> bool \<Rightarrow> CopyOnWriteBuffer \<Rightarrow> PacketOptions \<Rightarrow> int \<Rightarrow> 's send_outcome option" where
  "SendPacket cfg lib rtp_transport t rtcp packet options flags =
     (if \<not> IsActive t then
        Some \<lparr>returned = False, packet_after = packet, passed_down = None,
              adapter_after = t\<rparr>
      else
        (let len = static_cast_int (size_buf packet);
             cap = static_cast_int (capacity packet)
         in case (if \<not> rtcp
                  then SendPacket_protect_rtp cfg lib t (data packet) len cap options
                  else (let (res, p', len', t') = ProtectRtcp lib t (data packet) len cap
                        in Some (res, p', len', options, t'))) of
              None \<Rightarrow> None
            | Some (res, p', len', updated_options, t') \<Rightarrow>
                if \<not> res then
                  Some \<lparr>returned = False, packet_after = packet\<lparr>data := p'\<rparr>,
                        passed_down = None, adapter_after = t'\<rparr>
                else
                  (let packet' = SetSize (packet\<lparr>data := p'\<rparr>) (to_size_t len');
                       call = TransportSend rtcp packet' updated_options flags
                   in Some \<lparr>returned = rtp_transport call, packet_after = packet',
                            passed_down = Some call, adapter_after = t'\<rparr>)))"

definition SendRtpPacket ::
  "build_config \<Rightarrow> 's SrtpSession \<Rightarrow> (transport_call \<Rightarrow> bool) \<Rightarrow> 's SrtpTransport
     \<Rightarrow> CopyOnWriteBuffer \<Rightarrow> PacketOptions \<Rightarrow> int \<Rightarrow> 's send_outcome option" where
  "SendRtpPacket cfg lib rtp_transport t packet options flags =
     SendPacket cfg lib rtp_transport t False packet options flags"

definition SendRtcpPacket ::
  "build_config \<Rightarrow> 's SrtpSession \<Rightarrow> (transport_call \<Rightarrow> bool) \<Rightarrow> 's SrtpTransport
     \<Rightarrow> CopyOnWriteBuffer \<Rightarrow> PacketOptions \<Rightarrow> int \<Rightarrow> 's send_outcome option" where
  "SendRtcpPacket cfg lib rtp_transport t packet options flags =
     SendPacket cfg lib rtp_transport t True packet options flags"

text \<open>\<open>OnPacketReceived\<close>, lines 132 to 169.\<close>

definition OnPacketReceived ::
  "'s SrtpSession \<Rightarrow> 's SrtpTransport \<Rightarrow> bool \<Rightarrow> CopyOnWriteBuffer \<Rightarrow> PacketTime
     \<Rightarrow> 's receive_outcome" where
  "OnPacketReceived lib t rtcp packet packet_time =
     (if \<not> IsActive t then
        \<lparr>signalled = None, received_packet_after = packet, receiving_adapter_after = t\<rparr>
      else
        (let len = static_cast_int (size_buf packet);
             (res, p', len', t') =
               (if \<not> rtcp then UnprotectRtp lib t (data packet) len
                else UnprotectRtcp lib t (data packet) len)
         in if \<not> res then
              \<lparr>signalled = None, received_packet_after = packet\<lparr>data := p'\<rparr>,
               receiving_adapter_after = t'\<rparr>
            else
              (let packet' = SetSize (packet\<lparr>data := p'\<rparr>) (to_size_t len')
               in \<lparr>signalled = Some (SignalPacketReceived rtcp packet' packet_time),
                   received_packet_after = packet', receiving_adapter_after = t'\<rparr>)))"

subsection \<open>A crypto session to run the adapter on\<close>

text \<open>
  Modelled from the spec: a stand-in for \<open>cricket::SrtpSession\<close>, used where the adapter
  is run on concrete inputs. Following section 2 it is keyed for one direction with a
  cipher suite and key material and reports success or failure for every packet; it
  records the configuration calls made on it. Its transform is a placeholder: protecting
  appends a fixed trailer of ten bytes, its authentication tag, where the buffer has room
  for it (section 7), unprotecting checks the trailer and strips it. The protect
  operation that reports the packet index leaves ten zero bytes in the place of the tag
  (section 4.2, step 3). Only suite 1 is accepted, a session is
  keyed once, and external authentication is active on a session keyed for sending after
  it was enabled.
\<close>

datatype key_direction = Outbound | Inbound

record ref_session =
  rs_encrypted_header_extension_ids :: "int list"
  rs_external_auth_enabled :: bool
  rs_key :: "(key_direction \<times> int \<times> byte list) option"

definition rs_new :: ref_session where
  "rs_new = \<lparr>rs_encrypted_header_extension_ids = [], rs_external_auth_enabled = False,
             rs_key = None\<rparr>"

definition rs_SetKey ::
  "key_direction \<Rightarrow> ref_session \<Rightarrow> int \<Rightarrow> byte list \<Rightarrow> int \<Rightarrow> bool \<times> ref_session" where
  "rs_SetKey dir s cs key len =
     (if rs_key s = None \<and> cs = 1 \<and> 0 < len \<and> len = int (length key)
      then (True, s\<lparr>rs_key := Some (dir, cs, key)\<rparr>)
      else (False, s))"

definition rs_keyed :: "key_direction \<Rightarrow> ref_session \<Rightarrow> bool" where
  "rs_keyed dir s = (case rs_key s of None \<Rightarrow> False | Some (d, cs, key) \<Rightarrow> d = dir)"

definition rs_trailer :: "byte list" where
  "rs_trailer = [0xA5, 0xA5, 0xA5, 0xA5, 0xA5, 0xA5, 0xA5, 0xA5, 0xA5, 0xA5]"

definition rs_protect ::
  "ref_session \<Rightarrow> byte list \<Rightarrow> int \<Rightarrow> int \<Rightarrow> bool \<times> byte list \<times> int \<times> ref_session" where
  "rs_protect s p in_len max_len =
     (if rs_keyed Outbound s \<and> 0 \<le> in_len \<and> nat in_len \<le> length p \<and> in_len + 10 \<le> max_len
      then (True, take (nat in_len) p @ rs_trailer, in_len + 10, s)
      else (False, p, in_len, s))"

definition rs_protect_index ::
  "ref_session \<Rightarrow> byte list \<Rightarrow> int \<Rightarrow> int
     \<Rightarrow> bool \<times> byte list \<times> int \<times> int \<times> ref_session" where
  "rs_protect_index s p in_len max_len =
     (if rs_keyed Outbound s \<and> 0 \<le> in_len \<and> nat in_len \<le> length p \<and> in_len + 10 \<le> max_len
      then (True, take (nat in_len) p @ [0, 0, 0, 0, 0, 0, 0, 0, 0, 0], in_len + 10, 1, s)
      else (False, p, in_len, 0, s))"

definition rs_unprotect ::
  "ref_session \<Rightarrow> byte list \<Rightarrow> int \<Rightarrow> bool \<times> byte list \<times> int \<times> ref_session" where
  "rs_unprotect s p in_len =
     (if rs_keyed Inbound s \<and> 10 \<le> in_len
         \<and> drop (nat in_len - 10) (take (nat in_len) p) = rs_trailer
      then (True, take (nat in_len - 10) p, in_len - 10, s)
      else (False, p, in_len, s))"

definition rs_IsExternalAuthActive :: "ref_session \<Rightarrow> bool" where
  "rs_IsExternalAuthActive s \<longleftrightarrow> rs_external_auth_enabled s \<and> rs_keyed Outbound s"

definition rs_GetRtpAuthParams :: "ref_session \<Rightarrow> bool \<times> byte list \<times> int \<times> int" where
  "rs_GetRtpAuthParams s =
     (case rs_key s of
        Some (d, cs, key) \<Rightarrow>
          if rs_IsExternalAuthActive s then (True, key, int (length key), 10)
          else (False, [], 0, 0)
      | None \<Rightarrow> (False, [], 0, 0))"

definition ref_lib :: "ref_session SrtpSession" where
  "ref_lib =
     \<lparr>new_SrtpSession = rs_new,
      session_SetEncryptedHeaderExtensionIds =
        (\<lambda>s ids. s\<lparr>rs_encrypted_header_extension_ids := ids\<rparr>),
      session_EnableExternalAuth = (\<lambda>s. s\<lparr>rs_external_auth_enabled := True\<rparr>),
      session_SetSend = rs_SetKey Outbound,
      session_SetRecv = rs_SetKey Inbound,
      session_ProtectRtp = rs_protect,
      session_ProtectRtpIndex = rs_protect_index,
      session_ProtectRtcp = rs_protect,
      session_UnprotectRtp = rs_unprotect,
      session_UnprotectRtcp = rs_unprotect,
      session_GetRtpAuthParams = rs_GetRtpAuthParams,
      session_GetSrtpOverhead = (\<lambda>s. 10),
      session_IsExternalAuthActive = rs_IsExternalAuthActive\<rparr>"

text \<open>An adapter as its constructor leaves it, and concrete values used below.\<close>

definition new_SrtpTransport :: "string \<Rightarrow> ref_session SrtpTransport" where
  "new_SrtpTransport name =
     \<lparr>content_name = name, send_session = None, recv_session = None,
      send_rtcp_session = None, recv_rtcp_session = None,
      external_auth_enabled = False, rtp_abs_sendtime_extn_id = - 1,
      send_encrypted_header_extension_ids = [],
      recv_encrypted_header_extension_ids = []\<rparr>"

definition key_a :: "byte list" where
  "key_a = [1, 2, 3, 4]"

definition key_b :: "byte list" where
  "key_b = [9, 8, 7, 6]"

definition rtp_active :: "ref_session SrtpTransport" where
  "rtp_active = snd (SetRtpParams ref_lib (new_SrtpTransport ''audio'') 1 key_a 4 1 key_b 4)"

definition packet0 :: CopyOnWriteBuffer where
  "packet0 = \<lparr>data = [0x80, 0x60, 0, 1, 0, 0, 0, 0, 0, 0, 0, 5, 0xDE, 0xAD], size_buf = 14,
               capacity = 32\<rparr>"

definition options0 :: PacketOptions where
  "options0 =
     \<lparr>dscp = 0, packet_id = 7,
      packet_time_params =
        \<lparr>rtp_sendtime_extension_id = - 1, srtp_auth_key = [], srtp_auth_tag_len = - 1,
         srtp_packet_index = - 1\<rparr>\<rparr>"

definition debug_build :: build_config where
  "debug_build = \<lparr>ENABLE_EXTERNAL_AUTH = True, RTC_DCHECK_IS_ON = True\<rparr>"

definition release_build :: build_config where
  "release_build = \<lparr>ENABLE_EXTERNAL_AUTH = True, RTC_DCHECK_IS_ON = False\<rparr>"

definition protected_packet :: CopyOnWriteBuffer where
  "protected_packet = packet0\<lparr>data := data packet0 @ rs_trailer, size_buf := 24\<rparr>"

definition time0 :: PacketTime where
  "time0 = \<lparr>timestamp = 1000, not_before = 0\<rparr>"

definition rtcp_active :: "ref_session SrtpTransport" where
  "rtcp_active = snd (SetRtcpParams ref_lib rtp_active 1 key_a 4 1 key_b 4)"

definition half_set :: "ref_session SrtpTransport" where
  "half_set = rtp_active\<lparr>send_rtcp_session := Some rs_new\<rparr>"




subsection \<open>Notions the properties are stated with\<close>


text \<open>
  The unprotect operation \<open>OnPacketReceived\<close> calls for a packet, chosen by its
  \<open>rtcp\<close> argument (lines 144 to 165).
\<close>

definition unprotect_for ::
  "'s SrtpSession \<Rightarrow> 's SrtpTransport \<Rightarrow> bool \<Rightarrow> byte list \<Rightarrow> int
     \<Rightarrow> bool \<times> byte list \<times> int \<times> 's SrtpTransport" where
  "unprotect_for lib t rtcp p len =
     (if rtcp then UnprotectRtcp lib t p len else UnprotectRtp lib t p len)"

text \<open>
  The sessions on which \<open>SetRtpParams\<close> calls \<open>SetSend\<close> (line 183) and \<open>SetRecv\<close>
  (line 190): fresh sessions, prepared as \<open>CreateSrtpSessions\<close> and lines 178 to 182
  and 188 to 189 do.
\<close>

definition send_session_to_key :: "'s SrtpSession \<Rightarrow> 's SrtpTransport \<Rightarrow> 's" where
  "send_session_to_key lib t =
     (let s0 = (if external_auth_enabled t
                then session_EnableExternalAuth lib (new_SrtpSession lib)
                else new_SrtpSession lib);
          s1 = session_SetEncryptedHeaderExtensionIds lib s0
                 (send_encrypted_header_extension_ids t)
      in if external_auth_enabled t then session_EnableExternalAuth lib s1 else s1)"

definition recv_session_to_key :: "'s SrtpSession \<Rightarrow> 's SrtpTransport \<Rightarrow> 's" where
  "recv_session_to_key lib t =
     session_SetEncryptedHeaderExtensionIds lib (new_SrtpSession lib)
       (recv_encrypted_header_extension_ids t)"

text \<open>
  The calls a user of the adapter can make, and runs of them. A step is \<open>None\<close> when
  the call aborts or does not return. \<open>calls_ResetParams\<close> tells whether a call runs \<open>ResetParams\<close>:
  the call of that name and a \<open>SetRtpParams\<close> that fails (lines 184 and 191).
  \<open>run_without_reset\<close> runs a list of calls and is \<open>None\<close> as soon as one of them
  aborts or runs \<open>ResetParams\<close>.
\<close>

datatype api_call =
    Call_SetRtpParams int "byte list" int int "byte list" int
  | Call_SetRtcpParams int "byte list" int int "byte list" int
  | Call_SetEncryptedHeaderExtensionIds ContentSource "int list"
  | Call_EnableExternalAuth
  | Call_SendPacket bool CopyOnWriteBuffer PacketOptions int
  | Call_OnPacketReceived bool CopyOnWriteBuffer PacketTime
  | Call_ResetParams

fun api_step ::
  "build_config \<Rightarrow> 's SrtpSession \<Rightarrow> (transport_call \<Rightarrow> bool) \<Rightarrow> 's SrtpTransport \<Rightarrow> api_call
     \<Rightarrow> 's SrtpTransport option" where
  "api_step cfg lib tr t (Call_SetRtpParams a b c d e f) =
     Some (snd (SetRtpParams lib t a b c d e f))"
| "api_step cfg lib tr t (Call_SetRtcpParams a b c d e f) =
     Some (snd (SetRtcpParams lib t a b c d e f))"
| "api_step cfg lib tr t (Call_SetEncryptedHeaderExtensionIds source ids) =
     Some (SetEncryptedHeaderExtensionIds t source ids)"
| "api_step cfg lib tr t Call_EnableExternalAuth = EnableExternalAuth cfg t"
| "api_step cfg lib tr t (Call_SendPacket rtcp packet options flags) =
     map_option adapter_after (SendPacket cfg lib tr t rtcp packet options flags)"
| "api_step cfg lib tr t (Call_OnPacketReceived rtcp packet packet_time) =
     Some (receiving_adapter_after (OnPacketReceived lib t rtcp packet packet_time))"
| "api_step cfg lib tr t Call_ResetParams = Some (ResetParams t)"

fun calls_ResetParams :: "'s SrtpSession \<Rightarrow> 's SrtpTransport \<Rightarrow> api_call \<Rightarrow> bool" where
  "calls_ResetParams lib t (Call_SetRtpParams a b c d e f) =
     (\<not> fst (SetRtpParams lib t a b c d e f))"
| "calls_ResetParams lib t Call_ResetParams = True"
| "calls_ResetParams lib t call = False"

fun run_without_reset ::
  "build_config \<Rightarrow> 's SrtpSession \<Rightarrow> (transport_call \<Rightarrow> bool) \<Rightarrow> 's SrtpTransport
     \<Rightarrow> api_call list \<Rightarrow> 's SrtpTransport option" where
  "run_without_reset cfg lib tr t [] = Some t"
| "run_without_reset cfg lib tr t (call # calls) =
     (if calls_ResetParams lib t call then None
      else (case api_step cfg lib tr t call of
              None \<Rightarrow> None
            | Some t' \<Rightarrow> run_without_reset cfg lib tr t' calls))"

section \<open>Properties\<close>

subsection \<open>Facts shared by the proofs\<close>

text \<open>
  After a successful \<open>IsActive\<close> check both RTP session pointers are set, which is why
  the \<open>RTC_CHECK\<close>s of the packet path never fire.
\<close>

lemma IsActive_pointers:
  "IsActive t \<longleftrightarrow> (\<exists>s r. send_session t = Some s \<and> recv_session t = Some r)"
  by (auto simp: IsActive_def)

lemma ResetParams_inactive: "\<not> IsActive (ResetParams t)"
  by (simp add: IsActive_def ResetParams_def)

lemma SetRtpParams_unfold:
  "SetRtpParams lib t send_cs send_key send_key_len recv_cs recv_key recv_key_len =
     (case session_SetSend lib (send_session_to_key lib t) send_cs send_key send_key_len of
        (send_ok, s) \<Rightarrow>
          if \<not> send_ok then (False, ResetParams t)
          else (case session_SetRecv lib (recv_session_to_key lib t)
                       recv_cs recv_key recv_key_len of
                  (recv_ok, r) \<Rightarrow>
                    if \<not> recv_ok then (False, ResetParams t)
                    else (True, t\<lparr>send_session := Some s, recv_session := Some r\<rparr>)))"
  by (simp add: SetRtpParams_def CreateSrtpSessions_def send_session_to_key_def
      recv_session_to_key_def ResetParams_def Let_def split: prod.splits)

lemma static_cast_int_small:
  "static_cast_int 14 = 14" "static_cast_int 24 = 24" "static_cast_int 32 = 32"
  by (simp_all add: static_cast_int_def)

lemma packet0_fields:
  "size_buf packet0 = 14" "capacity packet0 = 32"
  "size_buf protected_packet = 24" "capacity protected_packet = 32"
  by (simp_all add: packet0_def protected_packet_def)

text \<open>The concrete adapters, evaluated.\<close>

lemma new_SrtpTransport_inactive: "\<not> IsActive (new_SrtpTransport name)"
  by (simp add: IsActive_def new_SrtpTransport_def)

lemma rtp_active_eq:
  "rtp_active =
     \<lparr>content_name = ''audio'',
      send_session = Some \<lparr>rs_encrypted_header_extension_ids = [],
                           rs_external_auth_enabled = False,
                           rs_key = Some (Outbound, 1, key_a)\<rparr>,
      recv_session = Some \<lparr>rs_encrypted_header_extension_ids = [],
                           rs_external_auth_enabled = False,
                           rs_key = Some (Inbound, 1, key_b)\<rparr>,
      send_rtcp_session = None, recv_rtcp_session = None,
      external_auth_enabled = False, rtp_abs_sendtime_extn_id = - 1,
      send_encrypted_header_extension_ids = [],
      recv_encrypted_header_extension_ids = []\<rparr>"
  by (simp add: rtp_active_def SetRtpParams_def CreateSrtpSessions_def new_SrtpTransport_def
      ref_lib_def rs_new_def rs_SetKey_def key_a_def key_b_def Let_def)

lemma rtp_active_sessions:
  "send_session rtp_active =
     Some \<lparr>rs_encrypted_header_extension_ids = [], rs_external_auth_enabled = False,
           rs_key = Some (Outbound, 1, key_a)\<rparr>"
  "recv_session rtp_active =
     Some \<lparr>rs_encrypted_header_extension_ids = [], rs_external_auth_enabled = False,
           rs_key = Some (Inbound, 1, key_b)\<rparr>"
  "send_rtcp_session rtp_active = None"
  "recv_rtcp_session rtp_active = None"
  by (simp_all add: rtp_active_eq)

lemma rtp_active_IsActive: "IsActive rtp_active"
  by (simp add: rtp_active_sessions IsActive_def)

lemma ref_lib_SetRecv_fresh:
  "session_SetRecv ref_lib (new_SrtpSession ref_lib) 1 key_a 4 =
     (True, \<lparr>rs_encrypted_header_extension_ids = [], rs_external_auth_enabled = False,
             rs_key = Some (Inbound, 1, key_a)\<rparr>)"
  "session_SetRecv ref_lib (new_SrtpSession ref_lib) 1 key_b 4 =
     (True, \<lparr>rs_encrypted_header_extension_ids = [], rs_external_auth_enabled = False,
             rs_key = Some (Inbound, 1, key_b)\<rparr>)"
  "session_SetSend ref_lib (new_SrtpSession ref_lib) 1 key_a 4 =
     (True, \<lparr>rs_encrypted_header_extension_ids = [], rs_external_auth_enabled = False,
             rs_key = Some (Outbound, 1, key_a)\<rparr>)"
  "session_SetRecv ref_lib (new_SrtpSession ref_lib) 2 key_a 4 = (False, rs_new)"
  by (simp_all add: ref_lib_def rs_new_def rs_SetKey_def key_a_def key_b_def)

lemma rtcp_active_eq:
  "rtcp_active =
     rtp_active\<lparr>send_rtcp_session :=
                  Some \<lparr>rs_encrypted_header_extension_ids = [],
                        rs_external_auth_enabled = False,
                        rs_key = Some (Inbound, 1, key_a)\<rparr>,
                recv_rtcp_session :=
                  Some \<lparr>rs_encrypted_header_extension_ids = [],
                        rs_external_auth_enabled = False,
                        rs_key = Some (Inbound, 1, key_b)\<rparr>\<rparr>"
  by (simp add: rtcp_active_def SetRtcpParams_def rtp_active_sessions ref_lib_SetRecv_fresh)

lemma SetRtcpParams_rtp_active:
  "SetRtcpParams ref_lib rtp_active 1 key_a 4 1 key_b 4 = (True, rtcp_active)"
  by (simp add: rtcp_active_eq SetRtcpParams_def rtp_active_sessions ref_lib_SetRecv_fresh)


text \<open>The RTCP send session survives every call that does not run \<open>ResetParams\<close>.\<close>

lemma ProtectRtp_keeps_rtcp:
  "ProtectRtp lib t p n m = (res, p', out, t') \<Longrightarrow> send_rtcp_session t' = send_rtcp_session t"
  by (auto simp: ProtectRtp_def split: if_splits prod.splits)

lemma ProtectRtpIndex_keeps_rtcp:
  "ProtectRtpIndex lib t p n m i = (res, p', out, i', t') \<Longrightarrow>
   send_rtcp_session t' = send_rtcp_session t"
  by (auto simp: ProtectRtpIndex_def split: if_splits prod.splits)

lemma ProtectRtcp_keeps_rtcp:
  "ProtectRtcp lib t p n m = (res, p', out, t') \<Longrightarrow> send_rtcp_session t \<noteq> None \<Longrightarrow>
   send_rtcp_session t' \<noteq> None"
  by (auto simp: ProtectRtcp_def split: if_splits prod.splits)

lemma SendPacket_protect_rtp_keeps_rtcp:
  "SendPacket_protect_rtp cfg lib t p n m options = Some (res, p', out, uo, t') \<Longrightarrow>
   send_rtcp_session t' = send_rtcp_session t"
  by (auto simp: SendPacket_protect_rtp_def Let_def split: if_splits prod.splits
      dest: ProtectRtp_keeps_rtcp ProtectRtpIndex_keeps_rtcp)

lemma SendPacket_keeps_rtcp:
  "send_rtcp_session t \<noteq> None \<Longrightarrow>
   SendPacket cfg lib tr t rtcp packet options flags = Some outcome \<Longrightarrow>
   send_rtcp_session (adapter_after outcome) \<noteq> None"
  by (auto simp: SendPacket_def Let_def split: if_splits prod.splits option.splits
      dest: SendPacket_protect_rtp_keeps_rtcp ProtectRtcp_keeps_rtcp)

lemma OnPacketReceived_keeps_rtcp:
  "send_rtcp_session (receiving_adapter_after (OnPacketReceived lib t rtcp packet packet_time))
     = send_rtcp_session t"
  by (auto simp: OnPacketReceived_def UnprotectRtp_def UnprotectRtcp_def Let_def
      split: if_splits prod.splits)

lemma api_step_keeps_rtcp:
  assumes live: "send_rtcp_session t \<noteq> None"
    and no_reset: "\<not> calls_ResetParams lib t call"
    and step: "api_step cfg lib tr t call = Some t'"
  shows "send_rtcp_session t' \<noteq> None"
proof (cases call)
  case (Call_SetRtpParams a b c d e f)
  with live no_reset step show ?thesis
    by (auto simp: SetRtpParams_unfold split: prod.splits if_splits)
next
  case (Call_SetRtcpParams a b c d e f)
  with live step show ?thesis by (auto simp: SetRtcpParams_def)
next
  case (Call_SetEncryptedHeaderExtensionIds source ids)
  with live step show ?thesis by (auto simp: SetEncryptedHeaderExtensionIds_def)
next
  case Call_EnableExternalAuth
  with live step show ?thesis by (auto simp: EnableExternalAuth_def split: if_splits)
next
  case (Call_SendPacket rtcp packet options flags)
  with step obtain outcome
    where sent: "SendPacket cfg lib tr t rtcp packet options flags = Some outcome"
      and after: "t' = adapter_after outcome"
    by auto
  from SendPacket_keeps_rtcp [OF live sent] after show ?thesis by simp
next
  case (Call_OnPacketReceived rtcp packet packet_time)
  with live step show ?thesis by (auto simp: OnPacketReceived_keeps_rtcp)
next
  case Call_ResetParams
  with no_reset show ?thesis by simp
qed

lemma run_without_reset_keeps_rtcp:
  "send_rtcp_session t \<noteq> None \<Longrightarrow> run_without_reset cfg lib tr t calls = Some t' \<Longrightarrow>
   send_rtcp_session t' \<noteq> None"
proof (induction calls arbitrary: t)
  case Nil
  then show ?case by simp
next
  case (Cons call calls)
  from Cons.prems(2) have nr: "\<not> calls_ResetParams lib t call"
    by (simp split: if_splits)
  with Cons.prems(2) obtain t1 where st: "api_step cfg lib tr t call = Some t1"
    and run: "run_without_reset cfg lib tr t1 calls = Some t'"
    by (auto split: option.splits)
  from api_step_keeps_rtcp [OF Cons.prems(1) nr st] have "send_rtcp_session t1 \<noteq> None" .
  from Cons.IH [OF this run] show ?case .
qed

subsection \<open>Receiving\<close>

text \<open>
  C1. For every packet handed to \<open>OnPacketReceived\<close>, RTP or RTCP, the adapter notifies
  its listeners exactly when it is active and the unprotect operation for that kind of
  packet succeeds; the notification then carries the packet with the unprotected bytes
  and its size set to the length the unprotect operation reported, the same \<open>rtcp\<close>
  flag and the same packet time. In every other case no listener is notified.
\<close>

theorem OnPacketReceived_forwards_iff:
  "signalled (OnPacketReceived lib t rtcp packet packet_time) =
     (case unprotect_for lib t rtcp (data packet) (static_cast_int (size_buf packet)) of
        (res, p', len', t') \<Rightarrow>
          if IsActive t \<and> res
          then Some (SignalPacketReceived rtcp
                      (SetSize (packet\<lparr>data := p'\<rparr>) (to_size_t len')) packet_time)
          else None)"
  by (simp add: OnPacketReceived_def unprotect_for_def Let_def split: prod.splits)

lemma unprotect_protected_packet:
  "unprotect_for ref_lib rtp_active False (data protected_packet) 24 =
     (True, data packet0, 14, rtp_active)"
  by (simp add: unprotect_for_def UnprotectRtp_def rtp_active_IsActive rtp_active_sessions
      ref_lib_def rs_unprotect_def rs_keyed_def protected_packet_def packet0_def rs_trailer_def)

lemma unprotect_plain_packet:
  "unprotect_for ref_lib rtp_active True (data packet0) 14 =
     (False, data packet0, 14, rtp_active)"
  by (simp add: unprotect_for_def UnprotectRtcp_def rtp_active_IsActive rtp_active_sessions
      ref_lib_def rs_unprotect_def rs_keyed_def packet0_def rs_trailer_def)

theorem OnPacketReceived_forwards_iff_witness:
  "signalled (OnPacketReceived ref_lib rtp_active False protected_packet time0) =
     Some (SignalPacketReceived False (packet0\<lparr>size_buf := 14\<rparr>) time0)
   \<and> signalled (OnPacketReceived ref_lib rtp_active True packet0 time0) = None
   \<and> signalled (OnPacketReceived ref_lib (ResetParams rtp_active) False protected_packet time0)
       = None"
proof -
  have pk: "SetSize (protected_packet\<lparr>data := data packet0\<rparr>) (to_size_t 14) =
              packet0\<lparr>size_buf := 14\<rparr>"
    by (simp add: SetSize_def to_size_t_def protected_packet_def packet0_def)
  show ?thesis
    using OnPacketReceived_forwards_iff [of ref_lib rtp_active False protected_packet time0]
      OnPacketReceived_forwards_iff [of ref_lib rtp_active True packet0 time0]
      OnPacketReceived_forwards_iff
        [of ref_lib "ResetParams rtp_active" False protected_packet time0]
    by (simp add: packet0_fields static_cast_int_small unprotect_protected_packet
        unprotect_plain_packet pk ResetParams_inactive rtp_active_IsActive split: prod.splits)
qed

subsection \<open>Sending while inactive\<close>

text \<open>
  C2. When the adapter is not active, \<open>SendPacket\<close> returns, with false, for every packet,
  options and flags and for RTP as well as RTCP; the packet keeps its bytes and its
  size, nothing is passed to the underlying transport and the adapter is unchanged. This
  is the case in particular after \<open>ResetParams\<close>.
\<close>

theorem SendPacket_inactive:
  "(\<not> IsActive t \<longrightarrow>
      SendPacket cfg lib rtp_transport t rtcp packet options flags =
        Some \<lparr>returned = False, packet_after = packet, passed_down = None,
              adapter_after = t\<rparr>)
   \<and> SendPacket cfg lib rtp_transport (ResetParams t) rtcp packet options flags =
        Some \<lparr>returned = False, packet_after = packet, passed_down = None,
              adapter_after = ResetParams t\<rparr>"
  by (simp add: SendPacket_def ResetParams_inactive)

theorem SendPacket_inactive_witness:
  "\<not> IsActive (new_SrtpTransport ''audio'')
   \<and> SendPacket debug_build ref_lib (\<lambda>call. True) (new_SrtpTransport ''audio'')
        False packet0 options0 0 =
        Some \<lparr>returned = False, packet_after = packet0, passed_down = None,
              adapter_after = new_SrtpTransport ''audio''\<rparr>
   \<and> SendPacket debug_build ref_lib (\<lambda>call. True) (ResetParams rtp_active)
        True packet0 options0 0 =
        Some \<lparr>returned = False, packet_after = packet0, passed_down = None,
              adapter_after = ResetParams rtp_active\<rparr>"
  using SendPacket_inactive
      [of "new_SrtpTransport ''audio''" debug_build ref_lib "\<lambda>call. True" False packet0
          options0 0]
    SendPacket_inactive [of rtp_active debug_build ref_lib "\<lambda>call. True" True packet0 options0 0]
    new_SrtpTransport_inactive [of "''audio''"]
  by simp

subsection \<open>Installing the RTP keys\<close>

text \<open>
  C3. \<open>SetRtpParams\<close> is all or nothing. It returns true exactly when the installation
  of the send key and the installation of the receive key both succeed, and the adapter
  is active then. When one of them fails it returns false, and afterwards all four
  sessions are null and the adapter is inactive.
\<close>

theorem SetRtpParams_all_or_nothing:
  "SetRtpParams lib t send_cs send_key send_key_len recv_cs recv_key recv_key_len = (ok, t')
   \<Longrightarrow>
   ok = (fst (session_SetSend lib (send_session_to_key lib t) send_cs send_key send_key_len)
         \<and> fst (session_SetRecv lib (recv_session_to_key lib t) recv_cs recv_key recv_key_len))
   \<and> (ok \<longrightarrow> IsActive t')
   \<and> (\<not> ok \<longrightarrow>
        send_session t' = None \<and> recv_session t' = None
        \<and> send_rtcp_session t' = None \<and> recv_rtcp_session t' = None \<and> \<not> IsActive t')"
  by (auto simp: SetRtpParams_unfold IsActive_def ResetParams_def split: prod.splits if_splits)

lemma SetRtpParams_new:
  "SetRtpParams ref_lib (new_SrtpTransport ''audio'') 1 key_a 4 1 key_b 4 = (True, rtp_active)"
  by (simp add: rtp_active_eq SetRtpParams_def CreateSrtpSessions_def new_SrtpTransport_def
      ref_lib_def rs_new_def rs_SetKey_def key_a_def key_b_def Let_def)

lemma SetRtpParams_bad_suite:
  "SetRtpParams ref_lib rtcp_active 1 key_a 4 2 key_b 4 = (False, ResetParams rtcp_active)"
  by (simp add: SetRtpParams_unfold send_session_to_key_def recv_session_to_key_def
      ref_lib_def rs_new_def rs_SetKey_def key_a_def key_b_def Let_def)

lemma SetRecv_bad_suite:
  "\<not> fst (session_SetRecv ref_lib (recv_session_to_key ref_lib rtcp_active) 2 key_b 4)"
  by (simp add: recv_session_to_key_def ref_lib_def rs_SetKey_def)

theorem SetRtpParams_all_or_nothing_witness:
  "SetRtpParams ref_lib (new_SrtpTransport ''audio'') 1 key_a 4 1 key_b 4 = (True, rtp_active)
   \<and> IsActive rtp_active
   \<and> SetRtpParams ref_lib rtcp_active 1 key_a 4 2 key_b 4 = (False, ResetParams rtcp_active)
   \<and> \<not> fst (session_SetRecv ref_lib (recv_session_to_key ref_lib rtcp_active) 2 key_b 4)
   \<and> send_session (ResetParams rtcp_active) = None
   \<and> recv_session (ResetParams rtcp_active) = None
   \<and> send_rtcp_session (ResetParams rtcp_active) = None
   \<and> recv_rtcp_session (ResetParams rtcp_active) = None
   \<and> \<not> IsActive (ResetParams rtcp_active)"
  using SetRtpParams_all_or_nothing [OF SetRtpParams_new]
    SetRtpParams_all_or_nothing [OF SetRtpParams_bad_suite]
    SetRtpParams_new SetRtpParams_bad_suite SetRecv_bad_suite
  by simp

subsection \<open>Installing the RTCP keys\<close>

text \<open>
  C4. A successful \<open>SetRtcpParams\<close> in a state without RTCP sessions stores two fresh
  RTCP sessions. The claim has the send key installed as key material for the send
  direction; the code installs the key of either session, the send one included, with
  \<open>SetRecv\<close> (lines 215 and 220). The theorem states what the code does. With the
  reference session the send RTCP session ends up keyed for the receive direction, which
  is not the session \<open>SetSend\<close> gives.
\<close>

theorem SetRtcpParams_keys_with_SetRecv:
  assumes "send_rtcp_session t = None" and "recv_rtcp_session t = None"
    and "SetRtcpParams lib t send_cs send_key send_key_len recv_cs recv_key recv_key_len
           = (True, t')"
  shows "send_rtcp_session t' =
           Some (snd (session_SetRecv lib (new_SrtpSession lib) send_cs send_key send_key_len))
         \<and> recv_rtcp_session t' =
           Some (snd (session_SetRecv lib (new_SrtpSession lib) recv_cs recv_key recv_key_len))"
  using assms
  by (auto simp: SetRtcpParams_def Let_def split: prod.splits if_splits)

theorem SetRtcpParams_keys_with_SetRecv_witness:
  "SetRtcpParams ref_lib rtp_active 1 key_a 4 1 key_b 4 = (True, rtcp_active)
   \<and> map_option rs_key (send_rtcp_session rtcp_active) = Some (Some (Inbound, 1, key_a))
   \<and> map_option rs_key (recv_rtcp_session rtcp_active) = Some (Some (Inbound, 1, key_b))
   \<and> send_rtcp_session rtcp_active
       \<noteq> Some (snd (session_SetSend ref_lib (new_SrtpSession ref_lib) 1 key_a 4))"
  using SetRtcpParams_keys_with_SetRecv
      [OF rtp_active_sessions(3) rtp_active_sessions(4) SetRtcpParams_rtp_active]
    SetRtcpParams_rtp_active
  by (simp add: ref_lib_SetRecv_fresh)

text \<open>
  C5. In every state in which an RTCP session exists, for sending or for receiving,
  every call of \<open>SetRtcpParams\<close> returns false and leaves the whole adapter as it was.
\<close>

theorem SetRtcpParams_already_set:
  "send_rtcp_session t \<noteq> None \<or> recv_rtcp_session t \<noteq> None \<Longrightarrow>
   SetRtcpParams lib t send_cs send_key send_key_len recv_cs recv_key recv_key_len = (False, t)"
  by (simp add: SetRtcpParams_def)

lemma rtcp_active_send_rtcp_session: "send_rtcp_session rtcp_active \<noteq> None"
  by (simp add: rtcp_active_eq)

theorem SetRtcpParams_already_set_witness:
  "send_rtcp_session rtcp_active \<noteq> None
   \<and> SetRtcpParams ref_lib rtcp_active 1 key_b 4 1 key_a 4 = (False, rtcp_active)"
  using SetRtcpParams_already_set [of rtcp_active ref_lib 1 key_b 4 1 key_a 4]
    rtcp_active_send_rtcp_session
  by simp

text \<open>
  C10. When \<open>SetRtcpParams\<close> is called without RTCP sessions and the installation of
  the key on the first session, the one for sending, fails, the call returns false and
  leaves that session in place, with no receive RTCP session. From then on, after any
  calls on the adapter none of which runs \<open>ResetParams\<close>, every \<open>SetRtcpParams\<close>
  returns false and changes nothing. \<open>ResetParams\<close> removes the session again.
\<close>

theorem SetRtcpParams_failed_install_blocks:
  assumes none: "send_rtcp_session t = None" "recv_rtcp_session t = None"
    and fails: "\<not> fst (session_SetRecv lib (new_SrtpSession lib) send_cs send_key send_key_len)"
    and call: "SetRtcpParams lib t send_cs send_key send_key_len recv_cs recv_key recv_key_len
                 = (ok, t1)"
  shows "\<not> ok
         \<and> send_rtcp_session t1 =
             Some (snd (session_SetRecv lib (new_SrtpSession lib) send_cs send_key send_key_len))
         \<and> recv_rtcp_session t1 = None
         \<and> (\<forall>calls t2 a b c d e f.
               run_without_reset cfg lib tr t1 calls = Some t2 \<longrightarrow>
               SetRtcpParams lib t2 a b c d e f = (False, t2))
         \<and> send_rtcp_session (ResetParams t1) = None
         \<and> recv_rtcp_session (ResetParams t1) = None"
proof -
  from none fails call have ok: "\<not> ok"
    and s: "send_rtcp_session t1 =
              Some (snd (session_SetRecv lib (new_SrtpSession lib) send_cs send_key send_key_len))"
    and r: "recv_rtcp_session t1 = None"
    by (auto simp: SetRtcpParams_def Let_def split: prod.splits)
  from s have live: "send_rtcp_session t1 \<noteq> None" by simp
  have blocked: "SetRtcpParams lib t2 a b c d e f = (False, t2)"
    if "run_without_reset cfg lib tr t1 calls = Some t2" for calls t2 a b c d e f
    using run_without_reset_keeps_rtcp [OF live that] by (simp add: SetRtcpParams_def)
  show ?thesis using ok s r blocked by (simp add: ResetParams_def)
qed

lemma SetRecv_fails_on_suite_2:
  "\<not> fst (session_SetRecv ref_lib (new_SrtpSession ref_lib) 2 key_a 4)"
  by (simp add: ref_lib_SetRecv_fresh)

lemma SetRtcpParams_suite_2:
  "SetRtcpParams ref_lib rtp_active 2 key_a 4 1 key_b 4 = (False, half_set)"
  by (simp add: SetRtcpParams_def rtp_active_sessions ref_lib_SetRecv_fresh half_set_def)

lemma run_on_half_set:
  "run_without_reset debug_build ref_lib (\<lambda>call. True) half_set
     [Call_SetRtcpParams 1 key_a 4 1 key_b 4,
      Call_SetEncryptedHeaderExtensionIds CS_LOCAL [5]]
   = Some (half_set\<lparr>recv_encrypted_header_extension_ids := [5]\<rparr>)"
  by (simp add: SetRtcpParams_def SetEncryptedHeaderExtensionIds_def half_set_def)

theorem SetRtcpParams_failed_install_blocks_witness:
  "SetRtcpParams ref_lib rtp_active 2 key_a 4 1 key_b 4 = (False, half_set)
   \<and> send_rtcp_session half_set = Some rs_new
   \<and> recv_rtcp_session half_set = None
   \<and> run_without_reset debug_build ref_lib (\<lambda>call. True) half_set
        [Call_SetRtcpParams 1 key_a 4 1 key_b 4,
         Call_SetEncryptedHeaderExtensionIds CS_LOCAL [5]]
       = Some (half_set\<lparr>recv_encrypted_header_extension_ids := [5]\<rparr>)
   \<and> SetRtcpParams ref_lib (half_set\<lparr>recv_encrypted_header_extension_ids := [5]\<rparr>)
        1 key_a 4 1 key_b 4
       = (False, half_set\<lparr>recv_encrypted_header_extension_ids := [5]\<rparr>)
   \<and> send_rtcp_session (ResetParams half_set) = None
   \<and> recv_rtcp_session (ResetParams half_set) = None"
proof -
  note blocks =
    SetRtcpParams_failed_install_blocks
      [OF rtp_active_sessions(3) rtp_active_sessions(4) SetRecv_fails_on_suite_2
          SetRtcpParams_suite_2, of debug_build "\<lambda>call. True"]
  from blocks run_on_half_set
  have "SetRtcpParams ref_lib (half_set\<lparr>recv_encrypted_header_extension_ids := [5]\<rparr>)
          1 key_a 4 1 key_b 4
        = (False, half_set\<lparr>recv_encrypted_header_extension_ids := [5]\<rparr>)"
    by blast
  with blocks run_on_half_set SetRtcpParams_suite_2 show ?thesis
    by (simp add: ref_lib_SetRecv_fresh)
qed

subsection \<open>Which session protects RTCP\<close>

text \<open>
  C6. In an active adapter \<open>ProtectRtcp\<close> hands the packet to the RTCP-protect operation
  of the RTP send session when there is no RTCP send session, and to the RTCP send
  session when there is one; \<open>UnprotectRtcp\<close> does the same with the RTP receive
  session and the RTCP receive session.
\<close>

theorem Rtcp_session_choice:
  assumes "send_session t = Some s" and "recv_session t = Some r"
  shows "ProtectRtcp lib t p in_len max_len =
           (case send_rtcp_session t of
              None \<Rightarrow>
                (case session_ProtectRtcp lib s p in_len max_len of
                   (res, p', out_len, s') \<Rightarrow> (res, p', out_len, t\<lparr>send_session := Some s'\<rparr>))
            | Some sr \<Rightarrow>
                (case session_ProtectRtcp lib sr p in_len max_len of
                   (res, p', out_len, sr') \<Rightarrow>
                     (res, p', out_len, t\<lparr>send_rtcp_session := Some sr'\<rparr>)))
         \<and> UnprotectRtcp lib t p in_len =
           (case recv_rtcp_session t of
              None \<Rightarrow>
                (case session_UnprotectRtcp lib r p in_len of
                   (res, p', out_len, r') \<Rightarrow> (res, p', out_len, t\<lparr>recv_session := Some r'\<rparr>))
            | Some rr \<Rightarrow>
                (case session_UnprotectRtcp lib rr p in_len of
                   (res, p', out_len, rr') \<Rightarrow>
                     (res, p', out_len, t\<lparr>recv_rtcp_session := Some rr'\<rparr>)))"
  using assms
  by (simp add: ProtectRtcp_def UnprotectRtcp_def IsActive_def split: option.splits prod.splits)

lemma rs_protect_packet0:
  "rs_protect \<lparr>rs_encrypted_header_extension_ids = [], rs_external_auth_enabled = False,
               rs_key = Some (Outbound, 1, key_a)\<rparr> (data packet0) 14 32 =
     (True, data protected_packet, 24,
      \<lparr>rs_encrypted_header_extension_ids = [], rs_external_auth_enabled = False,
       rs_key = Some (Outbound, 1, key_a)\<rparr>)"
  by (simp add: rs_protect_def rs_keyed_def packet0_def protected_packet_def)

lemma rs_unprotect_packet0:
  "rs_unprotect \<lparr>rs_encrypted_header_extension_ids = [], rs_external_auth_enabled = False,
                 rs_key = Some (Inbound, 1, key_b)\<rparr> (data protected_packet) 24 =
     (True, data packet0, 14,
      \<lparr>rs_encrypted_header_extension_ids = [], rs_external_auth_enabled = False,
       rs_key = Some (Inbound, 1, key_b)\<rparr>)"
  by (simp add: rs_unprotect_def rs_keyed_def packet0_def protected_packet_def rs_trailer_def)

lemma rs_protect_keyed_for_receiving:
  "rs_protect \<lparr>rs_encrypted_header_extension_ids = [], rs_external_auth_enabled = False,
               rs_key = Some (Inbound, 1, key_a)\<rparr> (data packet0) 14 32 =
     (False, data packet0, 14,
      \<lparr>rs_encrypted_header_extension_ids = [], rs_external_auth_enabled = False,
       rs_key = Some (Inbound, 1, key_a)\<rparr>)"
  by (simp add: rs_protect_def rs_keyed_def)

theorem Rtcp_session_choice_witness:
  "ProtectRtcp ref_lib rtp_active (data packet0) 14 32 =
     (True, data protected_packet, 24, rtp_active)
   \<and> ProtectRtcp ref_lib rtcp_active (data packet0) 14 32 =
     (False, data packet0, 14, rtcp_active)
   \<and> UnprotectRtcp ref_lib rtp_active (data protected_packet) 24 =
     (True, data packet0, 14, rtp_active)
   \<and> UnprotectRtcp ref_lib rtcp_active (data protected_packet) 24 =
     (True, data packet0, 14, rtcp_active)"
proof -
  have rtcp_sessions:
    "send_session rtcp_active = send_session rtp_active"
    "recv_session rtcp_active = recv_session rtp_active"
    "recv_rtcp_session rtcp_active =
       Some \<lparr>rs_encrypted_header_extension_ids = [], rs_external_auth_enabled = False,
             rs_key = Some (Inbound, 1, key_b)\<rparr>"
    "send_rtcp_session rtcp_active =
       Some \<lparr>rs_encrypted_header_extension_ids = [], rs_external_auth_enabled = False,
             rs_key = Some (Inbound, 1, key_a)\<rparr>"
    by (simp_all add: rtcp_active_eq)
  have same: "rtp_active\<lparr>send_session := send_session rtp_active\<rparr> = rtp_active"
    "rtp_active\<lparr>recv_session := recv_session rtp_active\<rparr> = rtp_active"
    "rtcp_active\<lparr>recv_rtcp_session := recv_rtcp_session rtcp_active\<rparr> = rtcp_active"
    "rtcp_active\<lparr>send_rtcp_session := send_rtcp_session rtcp_active\<rparr> = rtcp_active"
    by simp_all
  show ?thesis
    using Rtcp_session_choice
        [OF rtp_active_sessions(1) rtp_active_sessions(2), of ref_lib "data packet0" 14 32]
      Rtcp_session_choice
        [OF rtp_active_sessions(1) rtp_active_sessions(2), of ref_lib "data protected_packet" 24]
      Rtcp_session_choice
        [OF rtcp_sessions(1) [unfolded rtp_active_sessions(1)]
            rtcp_sessions(2) [unfolded rtp_active_sessions(2)],
         of ref_lib "data protected_packet" 24]
      Rtcp_session_choice
        [OF rtcp_sessions(1) [unfolded rtp_active_sessions(1)]
            rtcp_sessions(2) [unfolded rtp_active_sessions(2)],
         of ref_lib "data packet0" 14 32] same
    by (simp add: rtp_active_sessions rtcp_sessions ref_lib_def rs_protect_packet0
        rs_unprotect_packet0 rs_protect_keyed_for_receiving)
qed

subsection \<open>External authentication\<close>





















text \<open>
  C9 as stated fails for a build without debug checks: there \<open>RTC_DCHECK\<close> is compiled
  out, and \<open>EnableExternalAuth\<close> on an active adapter returns normally with the flag
  set.
\<close>

theorem EnableExternalAuth_active_returns:
  "IsActive rtp_active
   \<and> \<not> RTC_DCHECK_IS_ON release_build
   \<and> EnableExternalAuth release_build rtp_active
       = Some (rtp_active\<lparr>external_auth_enabled := True\<rparr>)
   \<and> EnableExternalAuth release_build rtp_active \<noteq> None"
  by (simp add: EnableExternalAuth_def release_build_def rtp_active_IsActive)

text \<open>
  C9, amended. In a build with debug checks, \<open>EnableExternalAuth\<close> on an active adapter
  aborts; in a build without them it sets the flag and returns. On an inactive adapter the
  check never fires, in either build, and the call sets the flag to true.
\<close>

theorem EnableExternalAuth_check:
  "(RTC_DCHECK_IS_ON cfg \<and> IsActive t \<longrightarrow> EnableExternalAuth cfg t = None)
   \<and> (\<not> RTC_DCHECK_IS_ON cfg \<and> IsActive t \<longrightarrow>
        EnableExternalAuth cfg t = Some (t\<lparr>external_auth_enabled := True\<rparr>))
   \<and> (\<not> IsActive t \<longrightarrow>
        EnableExternalAuth cfg t = Some (t\<lparr>external_auth_enabled := True\<rparr>)
        \<and> IsExternalAuthEnabled (t\<lparr>external_auth_enabled := True\<rparr>))"
  by (simp add: EnableExternalAuth_def IsExternalAuthEnabled_def)

theorem EnableExternalAuth_check_witness:
  "RTC_DCHECK_IS_ON debug_build \<and> IsActive rtp_active
   \<and> EnableExternalAuth debug_build rtp_active = None
   \<and> \<not> IsActive (new_SrtpTransport ''audio'')
   \<and> EnableExternalAuth debug_build (new_SrtpTransport ''audio'')
       = Some ((new_SrtpTransport ''audio'')\<lparr>external_auth_enabled := True\<rparr>)
   \<and> EnableExternalAuth release_build (new_SrtpTransport ''audio'')
       = Some ((new_SrtpTransport ''audio'')\<lparr>external_auth_enabled := True\<rparr>)"
  using EnableExternalAuth_check [of debug_build rtp_active]
    EnableExternalAuth_check [of debug_build "new_SrtpTransport ''audio''"]
    EnableExternalAuth_check [of release_build "new_SrtpTransport ''audio''"]
    rtp_active_IsActive new_SrtpTransport_inactive [of "''audio''"]
  by (simp add: debug_build_def)

subsection \<open>Encrypted header extension ids\<close>

text \<open>
  C8 as stated fails: \<open>SetEncryptedHeaderExtensionIds\<close> on an adapter with live sessions
  does not touch them. The receive session of the active adapter keeps its empty id set
  after the ids \<open>[5]\<close> were given for the local direction, and so does the send session
  for the remote direction.
\<close>

theorem SetEncryptedHeaderExtensionIds_live_sessions_unchanged:
  "IsActive rtp_active
   \<and> map_option rs_encrypted_header_extension_ids
        (recv_session (SetEncryptedHeaderExtensionIds rtp_active CS_LOCAL [5])) = Some []
   \<and> map_option rs_encrypted_header_extension_ids
        (send_session (SetEncryptedHeaderExtensionIds rtp_active CS_REMOTE [5])) = Some []
   \<and> recv_session (SetEncryptedHeaderExtensionIds rtp_active CS_LOCAL [5])
       \<noteq> map_option (\<lambda>s. session_SetEncryptedHeaderExtensionIds ref_lib s [5])
            (recv_session rtp_active)
   \<and> send_session (SetEncryptedHeaderExtensionIds rtp_active CS_REMOTE [5])
       \<noteq> map_option (\<lambda>s. session_SetEncryptedHeaderExtensionIds ref_lib s [5])
            (send_session rtp_active)"
  by (simp add: rtp_active_IsActive SetEncryptedHeaderExtensionIds_def rtp_active_sessions
      ref_lib_def)

text \<open>
  C8, amended. \<open>SetEncryptedHeaderExtensionIds\<close> only records the ids in the adapter:
  given the local direction it replaces the receive-side set and nothing else, given the
  remote direction it replaces the send-side set and nothing else; the other set, the
  four sessions and every other field stay as they are. The recorded set reaches a
  session at the next \<open>SetRtpParams\<close>: when that call succeeds, the new receive session
  is a fresh session that was given the receive-side set before its key, and the new send
  session a fresh session that was given the send-side set before its key.
\<close>

theorem SetEncryptedHeaderExtensionIds_stored:
  "SetEncryptedHeaderExtensionIds t CS_LOCAL ids =
     t\<lparr>recv_encrypted_header_extension_ids := ids\<rparr>
   \<and> SetEncryptedHeaderExtensionIds t CS_REMOTE ids =
     t\<lparr>send_encrypted_header_extension_ids := ids\<rparr>
   \<and> send_session (SetEncryptedHeaderExtensionIds t source ids) = send_session t
   \<and> recv_session (SetEncryptedHeaderExtensionIds t source ids) = recv_session t
   \<and> send_rtcp_session (SetEncryptedHeaderExtensionIds t source ids) = send_rtcp_session t
   \<and> recv_rtcp_session (SetEncryptedHeaderExtensionIds t source ids) = recv_rtcp_session t
   \<and> (SetRtpParams lib (SetEncryptedHeaderExtensionIds t CS_LOCAL ids)
         send_cs send_key send_key_len recv_cs recv_key recv_key_len = (True, t1) \<longrightarrow>
       recv_session t1 =
         Some (snd (session_SetRecv lib
                     (session_SetEncryptedHeaderExtensionIds lib (new_SrtpSession lib) ids)
                     recv_cs recv_key recv_key_len)))
   \<and> (SetRtpParams lib (SetEncryptedHeaderExtensionIds t CS_REMOTE ids)
         send_cs send_key send_key_len recv_cs recv_key recv_key_len = (True, t2) \<longrightarrow>
       send_session t2 =
         Some (snd (session_SetSend lib
                     (if external_auth_enabled t
                      then session_EnableExternalAuth lib
                             (session_SetEncryptedHeaderExtensionIds lib
                               (session_EnableExternalAuth lib (new_SrtpSession lib)) ids)
                      else session_SetEncryptedHeaderExtensionIds lib (new_SrtpSession lib) ids)
                     send_cs send_key send_key_len)))"
  by (auto simp: SetEncryptedHeaderExtensionIds_def SetRtpParams_unfold send_session_to_key_def
      recv_session_to_key_def split: prod.splits if_splits)

lemma SetRtpParams_after_local_ids:
  "SetRtpParams ref_lib (SetEncryptedHeaderExtensionIds rtp_active CS_LOCAL [5])
     1 key_a 4 1 key_b 4 =
   (True, rtp_active\<lparr>recv_encrypted_header_extension_ids := [5],
                     recv_session :=
                       Some \<lparr>rs_encrypted_header_extension_ids = [5],
                             rs_external_auth_enabled = False,
                             rs_key = Some (Inbound, 1, key_b)\<rparr>\<rparr>)"
  by (simp add: SetRtpParams_unfold send_session_to_key_def recv_session_to_key_def
      SetEncryptedHeaderExtensionIds_def rtp_active_eq ref_lib_def rs_new_def rs_SetKey_def
      key_a_def key_b_def)

lemma SetRtpParams_after_remote_ids:
  "SetRtpParams ref_lib (SetEncryptedHeaderExtensionIds rtp_active CS_REMOTE [5])
     1 key_a 4 1 key_b 4 =
   (True, rtp_active\<lparr>send_encrypted_header_extension_ids := [5],
                     send_session :=
                       Some \<lparr>rs_encrypted_header_extension_ids = [5],
                             rs_external_auth_enabled = False,
                             rs_key = Some (Outbound, 1, key_a)\<rparr>\<rparr>)"
  by (simp add: SetRtpParams_unfold send_session_to_key_def recv_session_to_key_def
      SetEncryptedHeaderExtensionIds_def rtp_active_eq ref_lib_def rs_new_def rs_SetKey_def
      key_a_def key_b_def)

theorem SetEncryptedHeaderExtensionIds_stored_witness:
  "SetEncryptedHeaderExtensionIds rtp_active CS_LOCAL [5] =
     rtp_active\<lparr>recv_encrypted_header_extension_ids := [5]\<rparr>
   \<and> SetEncryptedHeaderExtensionIds rtp_active CS_REMOTE [5] =
     rtp_active\<lparr>send_encrypted_header_extension_ids := [5]\<rparr>
   \<and> send_encrypted_header_extension_ids (SetEncryptedHeaderExtensionIds rtp_active CS_LOCAL [5])
       = []
   \<and> recv_session (SetEncryptedHeaderExtensionIds rtp_active CS_LOCAL [5]) = recv_session rtp_active
   \<and> recv_encrypted_header_extension_ids (SetEncryptedHeaderExtensionIds rtp_active CS_LOCAL [5])
       = [5]
   \<and> fst (SetRtpParams ref_lib (SetEncryptedHeaderExtensionIds rtp_active CS_LOCAL [5])
            1 key_a 4 1 key_b 4)
   \<and> map_option rs_encrypted_header_extension_ids
        (recv_session (snd (SetRtpParams ref_lib
           (SetEncryptedHeaderExtensionIds rtp_active CS_LOCAL [5]) 1 key_a 4 1 key_b 4)))
       = Some [5]
   \<and> fst (SetRtpParams ref_lib (SetEncryptedHeaderExtensionIds rtp_active CS_REMOTE [5])
            1 key_a 4 1 key_b 4)
   \<and> map_option rs_encrypted_header_extension_ids
        (send_session (snd (SetRtpParams ref_lib
           (SetEncryptedHeaderExtensionIds rtp_active CS_REMOTE [5]) 1 key_a 4 1 key_b 4)))
       = Some [5]"
proof -
  note stored =
    SetEncryptedHeaderExtensionIds_stored
      [where t = rtp_active and ids = "[5]" and source = CS_LOCAL and lib = ref_lib
         and send_cs = 1 and send_key = key_a and send_key_len = 4
         and recv_cs = 1 and recv_key = key_b and recv_key_len = 4
         and ?t1.0 = "snd (SetRtpParams ref_lib
                            (SetEncryptedHeaderExtensionIds rtp_active CS_LOCAL [5])
                            1 key_a 4 1 key_b 4)"
         and ?t2.0 = "snd (SetRtpParams ref_lib
                            (SetEncryptedHeaderExtensionIds rtp_active CS_REMOTE [5])
                            1 key_a 4 1 key_b 4)"]
  have keyed:
    "session_SetRecv ref_lib
       (session_SetEncryptedHeaderExtensionIds ref_lib (new_SrtpSession ref_lib) [5])
       1 key_b 4 =
     (True, \<lparr>rs_encrypted_header_extension_ids = [5], rs_external_auth_enabled = False,
             rs_key = Some (Inbound, 1, key_b)\<rparr>)"
    "session_SetSend ref_lib
       (session_SetEncryptedHeaderExtensionIds ref_lib (new_SrtpSession ref_lib) [5])
       1 key_a 4 =
     (True, \<lparr>rs_encrypted_header_extension_ids = [5], rs_external_auth_enabled = False,
             rs_key = Some (Outbound, 1, key_a)\<rparr>)"
    by (simp_all add: ref_lib_def rs_new_def rs_SetKey_def key_a_def key_b_def)
  have plain: "\<not> external_auth_enabled rtp_active"
    by (simp add: rtp_active_eq)
  have other: "send_encrypted_header_extension_ids rtp_active = []"
    by (simp add: rtp_active_eq)
  have recorded:
    "SetEncryptedHeaderExtensionIds rtp_active CS_LOCAL [5] =
       rtp_active\<lparr>recv_encrypted_header_extension_ids := [5]\<rparr>"
    "SetEncryptedHeaderExtensionIds rtp_active CS_REMOTE [5] =
       rtp_active\<lparr>send_encrypted_header_extension_ids := [5]\<rparr>"
    by (simp_all add: SetEncryptedHeaderExtensionIds_def)
  from stored show ?thesis
    by (simp add: SetRtpParams_after_local_ids [unfolded recorded]
        SetRtpParams_after_remote_ids [unfolded recorded] keyed plain other)
qed

end
